theory Spec2Isabelle
  imports Main "HOL-Library.Word" "HOL-Library.Sublist"
begin

section \<open>Strings, thrown values and responses\<close>

text \<open>
  A JavaScript string is a sequence of UTF-16 code units: \<open>length\<close>, \<open>slice\<close>,
  \<open>startsWith\<close> and regular expressions without the \<open>u\<close> flag all count and compare
  code units. The literals of the source are ASCII and are written \<open>js ''...''\<close>.
\<close>

type_synonym code_unit = "16 word"
type_synonym jsstring = "code_unit list"

definition cu :: "char \<Rightarrow> code_unit" where
  "cu c = of_char c"

definition js :: "string \<Rightarrow> jsstring" where
  "js s = map cu s"

text \<open>
  What a \<open>catch\<close> clause can receive: an \<open>Error\<close> object with its message, or any other
  value. An awaited call either throws or returns.
\<close>

datatype thrown = Error jsstring | NonError

datatype 'a outcome = Threw thrown | Returned 'a

text \<open>\<open>NextResponse.json(body, { status })\<close>; the status is 200 when none is given.\<close>

datatype 'b response = Response (status: nat) (body: 'b)

text \<open>\<open>Array.prototype.join\<close> on an array of strings, and \<open>s.slice(0, n)\<close>.\<close>

fun join :: "jsstring \<Rightarrow> jsstring list \<Rightarrow> jsstring" where
  "join sep [] = []"
| "join sep [x] = x"
| "join sep (x # y # ys) = x @ sep @ join sep (y # ys)"

definition slice0 :: "nat \<Rightarrow> jsstring \<Rightarrow> jsstring" where
  "slice0 n s = take n s"

section \<open>Video lookup: \<open>src/app/api/youtube/route.ts\<close>\<close>

subsection \<open>\<open>extractVideoId\<close>\<close>

text \<open>
  First pattern:
  \<^verbatim>\<open>/(?:youtube\.com\/watch\?v=|youtu\.be\/|youtube\.com\/embed\/)([^&\n?#]+)/\<close>.
  It is not anchored: the engine tries every start position from the left, at each
  position the three alternatives in order, and after the literal the greedy, non-empty
  run of code units other than \<open>&\<close>, newline, \<open>?\<close> and \<open>#\<close>. Nothing follows the group,
  so the longest run is the capture.
\<close>

definition stopChar :: "code_unit \<Rightarrow> bool" where
  "stopChar c \<longleftrightarrow> c = cu CHR ''&'' \<or> c = cu CHR 0x0A \<or> c = cu CHR ''?'' \<or> c = cu CHR ''#''"

definition capture_run :: "jsstring \<Rightarrow> jsstring option" where
  "capture_run s =
     (let m = takeWhile (\<lambda>c. \<not> stopChar c) s in if m = [] then None else Some m)"

definition literal_then_run :: "jsstring \<Rightarrow> jsstring \<Rightarrow> jsstring option" where
  "literal_then_run lit s =
     (if prefix lit s then capture_run (drop (length lit) s) else None)"

definition url_pattern_at :: "jsstring \<Rightarrow> jsstring option" where
  "url_pattern_at s =
     (case literal_then_run (js ''youtube.com/watch?v='') s of
        Some m \<Rightarrow> Some m
      | None \<Rightarrow>
          (case literal_then_run (js ''youtu.be/'') s of
             Some m \<Rightarrow> Some m
           | None \<Rightarrow> literal_then_run (js ''youtube.com/embed/'') s))"

fun url_pattern :: "jsstring \<Rightarrow> jsstring option" where
  "url_pattern [] = url_pattern_at []"
| "url_pattern (c # cs) =
     (case url_pattern_at (c # cs) of Some m \<Rightarrow> Some m | None \<Rightarrow> url_pattern cs)"

text \<open>Second pattern: \<^verbatim>\<open>/^([a-zA-Z0-9_-]{11})$/\<close>, the whole input.\<close>

definition idChar :: "code_unit \<Rightarrow> bool" where
  "idChar c \<longleftrightarrow>
     (cu CHR ''a'' \<le> c \<and> c \<le> cu CHR ''z'') \<or> (cu CHR ''A'' \<le> c \<and> c \<le> cu CHR ''Z'') \<or>
     (cu CHR ''0'' \<le> c \<and> c \<le> cu CHR ''9'') \<or> c = cu CHR ''_'' \<or> c = cu CHR ''-''"

definition bare_pattern :: "jsstring \<Rightarrow> jsstring option" where
  "bare_pattern s = (if length s = 11 \<and> list_all idChar s then Some s else None)"

definition extractVideoId :: "jsstring \<Rightarrow> jsstring option" where
  "extractVideoId url =
     (case url_pattern url of Some m \<Rightarrow> Some m | None \<Rightarrow> bare_pattern url)"

subsection \<open>The handler\<close>

text \<open>
  The two outbound calls are the handler's environment: \<open>fetch\<close> of the oEmbed URL
  (which may throw, or return a response with its \<open>ok\<close> flag and a body whose \<open>json()\<close>
  may throw or be \<open>null\<close>, here \<open>None\<close>), and the transcript library. The handler returns
  its response together with the outbound calls it made, in order.
\<close>

record metadata =
  md_title :: "jsstring option"
  md_author_name :: "jsstring option"

record oembed_response =
  ok :: bool
  json :: "metadata option outcome"

record transcript_item =
  item_text :: jsstring

record yt_env =
  fetch :: "jsstring \<Rightarrow> oembed_response outcome"
  fetchTranscript :: "jsstring \<Rightarrow> transcript_item list outcome"

datatype yt_call = OEmbedFetch jsstring | TranscriptFetch jsstring

record video_data =
  videoId :: jsstring
  title :: "jsstring option"
  author :: "jsstring option"
  thumbnailUrl :: jsstring
  transcript :: jsstring

datatype yt_body = YtError jsstring | YtVideo video_data

definition oembedUrl :: "jsstring \<Rightarrow> jsstring" where
  "oembedUrl vid =
     js ''https://www.youtube.com/oembed?url=https://www.youtube.com/watch?v='' @ vid @
     js ''&format=json''"

definition maxresUrl :: "jsstring \<Rightarrow> jsstring" where
  "maxresUrl vid = js ''https://img.youtube.com/vi/'' @ vid @ js ''/maxresdefault.jpg''"

definition unexpected_yt :: "yt_body response" where
  "unexpected_yt = Response 500 (YtError (js ''Failed to fetch video data''))"

text \<open>The inner \<open>try\<close>: a transcript that cannot be fetched leaves \<open>transcript\<close> empty.\<close>

definition transcript_of :: "transcript_item list outcome \<Rightarrow> jsstring" where
  "transcript_of t =
     (case t of Threw e \<Rightarrow> [] | Returned transcriptData \<Rightarrow> join (js '' '') (map item_text transcriptData))"

definition lookup :: "yt_env \<Rightarrow> jsstring option \<Rightarrow> yt_body response \<times> yt_call list" where
  "lookup env url =
     (case url of
        None \<Rightarrow> (Response 400 (YtError (js ''URL is required'')), [])
      | Some u \<Rightarrow>
          if u = [] then (Response 400 (YtError (js ''URL is required'')), [])
          else
            (case extractVideoId u of
               None \<Rightarrow> (Response 400 (YtError (js ''Invalid YouTube URL'')), [])
             | Some vid \<Rightarrow>
                 if vid = [] then (Response 400 (YtError (js ''Invalid YouTube URL'')), [])
                 else
                   (case fetch env (oembedUrl vid) of
                      Threw e \<Rightarrow> (unexpected_yt, [OEmbedFetch (oembedUrl vid)])
                    | Returned metadataResponse \<Rightarrow>
                        if \<not> ok metadataResponse
                        then (Response 400 (YtError (js ''Failed to fetch video metadata'')),
                              [OEmbedFetch (oembedUrl vid)])
                        else
                          (case json metadataResponse of
                             Threw e \<Rightarrow> (unexpected_yt, [OEmbedFetch (oembedUrl vid)])
                           | Returned md \<Rightarrow>
                               let tr = transcript_of (fetchTranscript env vid);
                                   calls = [OEmbedFetch (oembedUrl vid), TranscriptFetch vid]
                               in (case md of
                                     None \<Rightarrow> (unexpected_yt, calls)
                                   | Some m \<Rightarrow>
                                       (Response 200 (YtVideo
                                          \<lparr>videoId = vid, title = md_title m,
                                           author = md_author_name m,
                                           thumbnailUrl = maxresUrl vid,
                                           transcript = slice0 5000 tr\<rparr>), calls))))))"

text \<open>
  \<open>POST\<close>: the body is \<open>await request.json()\<close>, which throws inside the outer \<open>try\<close>
  when the body is not a JSON object; otherwise \<open>url\<close> is its field, if any.
\<close>

definition POST_youtube ::
  "yt_env \<Rightarrow> jsstring option outcome \<Rightarrow> yt_body response \<times> yt_call list" where
  "POST_youtube env request =
     (case request of Threw e \<Rightarrow> (unexpected_yt, []) | Returned url \<Rightarrow> lookup env url)"

text \<open>An environment in which both outbound calls succeed, for concrete evaluation.\<close>

definition sample_yt_env :: yt_env where
  "sample_yt_env =
     \<lparr>fetch = (\<lambda>u. Returned \<lparr>ok = True,
         json = Returned (Some \<lparr>md_title = Some (js ''A title''),
                                 md_author_name = Some (js ''An author'')\<rparr>)\<rparr>),
      fetchTranscript = (\<lambda>v. Returned [\<lparr>item_text = js ''never''\<rparr>, \<lparr>item_text = js ''gonna''\<rparr>])\<rparr>"

definition failing_transcript_env :: yt_env where
  "failing_transcript_env =
     sample_yt_env\<lparr>fetchTranscript := (\<lambda>v. Threw (Error (js ''Transcript is disabled'')))\<rparr>"

definition long_transcript_env :: yt_env where
  "long_transcript_env =
     sample_yt_env\<lparr>fetchTranscript := (\<lambda>v. Returned
        [\<lparr>item_text = replicate 3000 (cu CHR ''a'')\<rparr>, \<lparr>item_text = js ''never''\<rparr>,
         \<lparr>item_text = replicate 3000 (cu CHR ''b'')\<rparr>])\<rparr>"

section \<open>Image generation: \<open>src/app/api/generate/route.ts\<close> and its enhanced variant\<close>

subsection \<open>Requests, prompts and the provider\<close>

definition SHOPIFY_IMAGE_WIDTH :: nat where
  "SHOPIFY_IMAGE_WIDTH = 1200"

definition SHOPIFY_IMAGE_HEIGHT :: nat where
  "SHOPIFY_IMAGE_HEIGHT = 628"

text \<open>The fields the handlers destructure from the body; \<open>None\<close> is \<open>undefined\<close>.\<close>

record gen_request =
  req_title :: "jsstring option"
  req_transcript :: "jsstring option"
  req_style :: "jsstring option"
  req_sourceImage :: "jsstring option"
  req_mode :: "jsstring option"

text \<open>
  Template literals: \<open>${n}\<close> of a non-negative integer prints its decimal digits,
  \<open>${x}\<close> of an absent field prints \<open>undefined\<close>; a string is truthy when it is present
  and not empty.
\<close>

fun decimal :: "nat \<Rightarrow> jsstring" where
  "decimal n =
     (if n < 10 then [cu CHR ''0'' + of_nat n]
      else decimal (n div 10) @ [cu CHR ''0'' + of_nat (n mod 10)])"

declare decimal.simps [simp del]

definition interpolate :: "jsstring option \<Rightarrow> jsstring" where
  "interpolate x = (case x of None \<Rightarrow> js ''undefined'' | Some s \<Rightarrow> s)"

definition truthy :: "jsstring option \<Rightarrow> bool" where
  "truthy x = (case x of None \<Rightarrow> False | Some s \<Rightarrow> s \<noteq> [])"

definition or_else :: "jsstring option \<Rightarrow> jsstring \<Rightarrow> jsstring" where
  "or_else x d = (case x of None \<Rightarrow> d | Some s \<Rightarrow> if s = [] then d else s)"

text \<open>\<^verbatim>\<open>${transcript ? `label${transcript.slice(0, n)}` : ""}\<close>.\<close>

definition context_line :: "jsstring \<Rightarrow> nat \<Rightarrow> jsstring option \<Rightarrow> jsstring" where
  "context_line label n tr =
     (case tr of None \<Rightarrow> [] | Some t \<Rightarrow> if t = [] then [] else label @ slice0 n t)"

definition nl :: jsstring where
  "nl = [cu CHR 0x0A]"

definition dimensions :: jsstring where
  "dimensions = decimal SHOPIFY_IMAGE_WIDTH @ js ''x'' @ decimal SHOPIFY_IMAGE_HEIGHT"

definition generationPrompt :: "gen_request \<Rightarrow> jsstring" where
  "generationPrompt req =
     js ''Create a professional, high-quality blog featured image for the following content:'' @ nl @
     nl @
     js ''Topic: '' @ interpolate (req_title req) @ nl @
     context_line (js ''Context: '') 1500 (req_transcript req) @ nl @
     nl @
     js ''Requirements:'' @ nl @
     js ''- Style: '' @ or_else (req_style req) (js ''modern, clean, professional'') @ nl @
     js ''- Aspect ratio: 16:9 (horizontal, suitable for '' @ dimensions @ js '')'' @ nl @
     js ''- NO text, words, or letters in the image'' @ nl @
     js ''- Visually striking and eye-catching for a blog header'' @ nl @
     js ''- Professional quality, photorealistic or high-quality illustration'' @ nl @
     js ''- Rich colors and good composition'' @ nl @
     js ''- Represents the main theme/topic clearly''"

definition enhancementPrompt :: "gen_request \<Rightarrow> jsstring" where
  "enhancementPrompt req =
     js ''Transform this image into a professional Shopify blog featured image.'' @ nl @
     nl @
     js ''Topic context: '' @ interpolate (req_title req) @ nl @
     context_line (js ''Content context: '') 1000 (req_transcript req) @ nl @
     nl @
     js ''Enhancement requirements:'' @ nl @
     js ''- Apply a '' @ or_else (req_style req) (js ''modern, clean, professional'') @
       js '' style'' @ nl @
     js ''- Optimize for blog header format (16:9 aspect ratio, '' @ dimensions @ js '')'' @ nl @
     js ''- Enhance colors, contrast, and visual appeal'' @ nl @
     js ''- Make it more eye-catching and professional'' @ nl @
     js ''- Keep the main subject/content from the original'' @ nl @
     js ''- DO NOT add any text, words, or letters'' @ nl @
     js ''- Create a polished, high-quality result suitable for a professional blog''"

text \<open>The parts a handler sends, and the call it makes to \<open>client.models.generateContent\<close>.\<close>

datatype sent_part = TextPart jsstring | InlineDataPart jsstring jsstring

record generate_params =
  model :: jsstring
  contents :: "sent_part list"
  responseModalities :: "jsstring list"

definition generate_call :: "sent_part list \<Rightarrow> generate_params" where
  "generate_call ps =
     \<lparr>model = js ''gemini-2.5-flash-image'', contents = ps,
      responseModalities = [js ''TEXT'', js ''IMAGE'']\<rparr>"

text \<open>
  The provider's response, every level optional as the handlers' \<open>?.\<close> chain expects:
  \<open>response.candidates\<close>, \<open>candidates[0]?.content\<close>, \<open>content?.parts\<close>, and on a part
  \<open>text\<close> and \<open>inlineData?.data\<close>.
\<close>

record blob =
  mimeType :: "jsstring option"
  data :: "jsstring option"

record part =
  part_text :: "jsstring option"
  inlineData :: "blob option"

record content =
  parts :: "part list option"

record candidate =
  candidate_content :: "content option"

record gen_response =
  candidates :: "candidate list option"

text \<open>
  The environment of the generation handlers: the configured key, the provider, and for
  a source image given by URL the bytes \<open>fetch\<close> and \<open>arrayBuffer\<close> deliver together
  with the runtime's base64 encoding of a buffer.
\<close>

record gen_env =
  GEMINI_API_KEY :: "jsstring option"
  generateContent :: "generate_params \<Rightarrow> gen_response outcome"
  fetch_bytes :: "jsstring \<Rightarrow> 8 word list outcome"
  toBase64 :: "8 word list \<Rightarrow> jsstring"

datatype gen_call = FetchImage jsstring | GenerateContent generate_params

record generated_image =
  imagePrompt :: jsstring
  imageData :: jsstring
  width :: nat
  height :: nat

datatype gen_body = GenError jsstring | GenImage generated_image

definition fetchImageAsBase64 :: "gen_env \<Rightarrow> jsstring \<Rightarrow> jsstring outcome" where
  "fetchImageAsBase64 env url =
     (case fetch_bytes env url of
        Threw e \<Rightarrow> Threw e
      | Returned arrayBuffer \<Rightarrow> Returned (toBase64 env arrayBuffer))"

text \<open>The outer \<open>catch\<close> of both handlers.\<close>

definition caught_gen :: "thrown \<Rightarrow> gen_body response" where
  "caught_gen e =
     Response 500 (GenError (case e of Error message \<Rightarrow> message
                                     | NonError \<Rightarrow> js ''Failed to generate image''))"

subsection \<open>Reading the provider's response\<close>

definition response_parts :: "gen_response \<Rightarrow> part list" where
  "response_parts r =
     (case candidates r of
        None \<Rightarrow> []
      | Some cs \<Rightarrow>
          (case cs of
             [] \<Rightarrow> []
           | c # _ \<Rightarrow>
               (case candidate_content c of
                  None \<Rightarrow> []
                | Some ct \<Rightarrow> (case parts ct of None \<Rightarrow> [] | Some ps \<Rightarrow> ps))))"

text \<open>
  The \<open>for\<close> loop over the parts: each part with a non-empty \<open>text\<close> assigns
  \<open>promptUsed\<close>, each part with non-empty \<open>inlineData.data\<close> assigns \<open>imageData\<close> (here
  \<open>img\<close>, \<open>None\<close> for \<open>null\<close>); the loop has no \<open>break\<close>.
\<close>

fun scan_parts :: "part list \<Rightarrow> jsstring \<times> jsstring option \<Rightarrow> jsstring \<times> jsstring option" where
  "scan_parts [] acc = acc"
| "scan_parts (p # ps) (promptUsed, img) =
     scan_parts ps
       ((case part_text p of
           None \<Rightarrow> promptUsed
         | Some t \<Rightarrow> if t = [] then promptUsed else t),
        (case inlineData p of
           None \<Rightarrow> img
         | Some b \<Rightarrow>
             (case data b of
                None \<Rightarrow> img
              | Some d \<Rightarrow> if d = [] then img else Some d)))"

definition no_image :: "gen_body response" where
  "no_image =
     Response 500 (GenError (js ''Failed to generate image - no image data in response''))"

definition assemble :: "jsstring \<Rightarrow> gen_response \<Rightarrow> gen_body response" where
  "assemble default_prompt r =
     (case scan_parts (response_parts r) (default_prompt, None) of
        (promptUsed, img) \<Rightarrow>
          (case img of
             None \<Rightarrow> no_image
           | Some d \<Rightarrow>
               if d = [] then no_image
               else Response 200 (GenImage
                      \<lparr>imagePrompt = promptUsed,
                       imageData = js ''data:image/png;base64,'' @ d,
                       width = SHOPIFY_IMAGE_WIDTH, height = SHOPIFY_IMAGE_HEIGHT\<rparr>)))"

subsection \<open>\<open>POST\<close> of \<open>/api/generate\<close>\<close>

definition POST_generate ::
  "gen_env \<Rightarrow> gen_request outcome \<Rightarrow> gen_body response \<times> gen_call list" where
  "POST_generate env request =
     (case request of
        Threw e \<Rightarrow> (caught_gen e, [])
      | Returned req \<Rightarrow>
          if \<not> truthy (GEMINI_API_KEY env)
          then (Response 500 (GenError (js ''GEMINI_API_KEY not configured'')), [])
          else
            let prompt = generationPrompt req;
                call = generate_call [TextPart prompt]
            in (case generateContent env call of
                  Threw e \<Rightarrow> (caught_gen e, [GenerateContent call])
                | Returned r \<Rightarrow> (assemble prompt r, [GenerateContent call])))"

subsection \<open>\<open>POST\<close> of the enhanced variant\<close>

text \<open>
  \<^verbatim>\<open>/^data:([^;]+);base64,(.+)$/\<close>: after \<open>data:\<close> the non-empty run up to the first
  \<open>;\<close> (the class cannot cross one, so no shorter run can be followed by \<open>;\<close>), the
  literal \<open>;base64,\<close>, and a non-empty rest of the input without line terminators
  (\<open>.\<close> excludes them, and \<open>$\<close> without the \<open>m\<close> flag is the end of the input).
\<close>

definition lineTerminator :: "code_unit \<Rightarrow> bool" where
  "lineTerminator c \<longleftrightarrow> c = 0x000A \<or> c = 0x000D \<or> c = 0x2028 \<or> c = 0x2029"

definition data_uri_match :: "jsstring \<Rightarrow> (jsstring \<times> jsstring) option" where
  "data_uri_match s =
     (if prefix (js ''data:'') s
      then
        let rest = drop (length (js ''data:'')) s;
            mime = takeWhile (\<lambda>c. c \<noteq> cu CHR '';'') rest;
            after = dropWhile (\<lambda>c. c \<noteq> cu CHR '';'') rest
        in if mime \<noteq> [] \<and> prefix (js '';base64,'') after
           then
             let payload = drop (length (js '';base64,'')) after
             in if payload \<noteq> [] \<and> list_all (\<lambda>c. \<not> lineTerminator c) payload
                then Some (mime, payload) else None
           else None
      else None)"

text \<open>
  The content parts, by mode. The result is what the block leaves in \<open>parts\<close>, or what
  it throws, together with the outbound calls made on the way.
\<close>

definition generate_parts :: "gen_request \<Rightarrow> sent_part list outcome \<times> gen_call list" where
  "generate_parts req = (Returned [TextPart (generationPrompt req)], [])"

definition enhance_parts ::
  "gen_env \<Rightarrow> gen_request \<Rightarrow> jsstring \<Rightarrow> sent_part list outcome \<times> gen_call list" where
  "enhance_parts env req sourceImage =
     (if prefix (js ''data:'') sourceImage
      then
        (case data_uri_match sourceImage of
           Some (mime, imageBase64) \<Rightarrow>
             (Returned [InlineDataPart mime imageBase64, TextPart (enhancementPrompt req)], [])
         | None \<Rightarrow> (Threw (Error (js ''Invalid base64 image format'')), []))
      else
        (case fetchImageAsBase64 env sourceImage of
           Threw e \<Rightarrow> (Threw e, [FetchImage sourceImage])
         | Returned imageBase64 \<Rightarrow>
             (Returned [InlineDataPart (js ''image/jpeg'') imageBase64,
                        TextPart (enhancementPrompt req)], [FetchImage sourceImage])))"

definition build_parts :: "gen_env \<Rightarrow> gen_request \<Rightarrow> sent_part list outcome \<times> gen_call list" where
  "build_parts env req =
     (case req_sourceImage req of
        None \<Rightarrow> generate_parts req
      | Some sourceImage \<Rightarrow>
          if req_mode req = Some (js ''enhance'') \<and> sourceImage \<noteq> []
          then enhance_parts env req sourceImage
          else generate_parts req)"

definition default_label :: "gen_request \<Rightarrow> jsstring" where
  "default_label req =
     (if req_mode req = Some (js ''enhance'') then js ''Enhanced from source image''
      else js ''AI generated'')"

definition POST_enhanced ::
  "gen_env \<Rightarrow> gen_request outcome \<Rightarrow> gen_body response \<times> gen_call list" where
  "POST_enhanced env request =
     (case request of
        Threw e \<Rightarrow> (caught_gen e, [])
      | Returned req \<Rightarrow>
          if \<not> truthy (GEMINI_API_KEY env)
          then (Response 500 (GenError (js ''GEMINI_API_KEY not configured'')), [])
          else
            (case build_parts env req of
               (Threw e, calls) \<Rightarrow> (caught_gen e, calls)
             | (Returned ps, calls) \<Rightarrow>
                 (case generateContent env (generate_call ps) of
                    Threw e \<Rightarrow> (caught_gen e, calls @ [GenerateContent (generate_call ps)])
                  | Returned r \<Rightarrow>
                      (assemble (default_label req) r,
                       calls @ [GenerateContent (generate_call ps)]))))"

subsection \<open>The parts of a response, by kind\<close>

text \<open>
  The non-empty texts and the non-empty inline image payloads of a list of parts, in
  the order of the parts; they state which part the handlers report.
\<close>

definition text_parts :: "part list \<Rightarrow> jsstring list" where
  "text_parts ps = filter (\<lambda>t. t \<noteq> []) (List.map_filter part_text ps)"

definition image_parts :: "part list \<Rightarrow> jsstring list" where
  "image_parts ps =
     filter (\<lambda>d. d \<noteq> [])
       (List.map_filter (\<lambda>p. case inlineData p of None \<Rightarrow> None | Some b \<Rightarrow> data b) ps)"

definition last_or :: "'a \<Rightarrow> 'a list \<Rightarrow> 'a" where
  "last_or d xs = (if xs = [] then d else last xs)"

subsection \<open>Concrete requests and a concrete provider\<close>

definition two_of_each :: gen_response where
  "two_of_each =
     \<lparr>candidates = Some [\<lparr>candidate_content = Some \<lparr>parts = Some
        [\<lparr>part_text = Some (js ''first''), inlineData = None\<rparr>,
         \<lparr>part_text = None,
          inlineData = Some \<lparr>mimeType = Some (js ''image/jpeg''), data = Some (js ''AAAA'')\<rparr>\<rparr>,
         \<lparr>part_text = Some (js ''second''), inlineData = None\<rparr>,
         \<lparr>part_text = None,
          inlineData = Some \<lparr>mimeType = Some (js ''image/png''), data = Some (js ''BBBB'')\<rparr>\<rparr>]\<rparr>\<rparr>]\<rparr>"

definition sample_gen_env :: gen_env where
  "sample_gen_env =
     \<lparr>GEMINI_API_KEY = Some (js ''key''),
      generateContent = (\<lambda>c. Returned two_of_each),
      fetch_bytes = (\<lambda>u. Threw NonError),
      toBase64 = (\<lambda>b. [])\<rparr>"

definition sample_request :: gen_request where
  "sample_request =
     \<lparr>req_title = Some (js ''A title''), req_transcript = None, req_style = None,
      req_sourceImage = None, req_mode = None\<rparr>"

definition malformed_request :: gen_request where
  "malformed_request =
     sample_request\<lparr>req_sourceImage := Some (js ''data:image/png,AAAA''),
                    req_mode := Some (js ''enhance'')\<rparr>"

definition enhance_without_source :: gen_request where
  "enhance_without_source = sample_request\<lparr>req_mode := Some (js ''enhance'')\<rparr>"

definition no_key_env :: gen_env where
  "no_key_env = sample_gen_env\<lparr>GEMINI_API_KEY := None\<rparr>"

section \<open>Frame extraction: the \<open>/api/frame\<close> route\<close>

subsection \<open>\<open>parseTimestamp\<close>\<close>

text \<open>
  \<open>String.prototype.split\<close> with a one-character separator: the pieces between the
  separators, so the empty string gives one empty piece.
\<close>

fun split_on :: "code_unit \<Rightarrow> jsstring \<Rightarrow> jsstring list" where
  "split_on d [] = [] # []"
| "split_on d (c # cs) =
     (if c = d then [] # split_on d cs
      else (case split_on d cs of [] \<Rightarrow> [c] # [] | x # xs \<Rightarrow> (c # x) # xs))"

text \<open>
  Numbers. The handler's numbers are IEEE doubles; the model has the integers, on which
  double arithmetic is exact below \<open>2^53\<close>, and \<open>NaN\<close>, which every operation propagates.
  The conversion \<open>Number\<close> of the runtime is a parameter of \<open>parseTimestamp\<close>.
  \<open>StringToNumber\<close> is that conversion on the strings made of decimal digits between
  optional white space: the empty or blank string is 0, digits are read in base ten, and
  a string that is no numeric literal, such as \<open>abc\<close>, is \<open>NaN\<close>. Numeric literals with
  a sign, a fraction, an exponent, a radix prefix or \<open>Infinity\<close> have values this number
  type lacks; \<open>StringToNumber\<close> is not the runtime's conversion on them, and every
  statement that is not about digit strings is made for an arbitrary conversion.
  \<open>num_add\<close> and \<open>num_mul\<close> are the exact integer sum and product: they are the
  runtime's while operands and result stay below \<open>2^53\<close> in magnitude, where the runtime
  starts to round and the model does not.
\<close>

datatype jsnum = NaN | Num int

fun num_add :: "jsnum \<Rightarrow> jsnum \<Rightarrow> jsnum" where
  "num_add (Num a) (Num b) = Num (a + b)"
| "num_add _ _ = NaN"

fun num_mul :: "jsnum \<Rightarrow> jsnum \<Rightarrow> jsnum" where
  "num_mul (Num a) (Num b) = Num (a * b)"
| "num_mul _ _ = NaN"

definition whiteSpace :: "code_unit \<Rightarrow> bool" where
  "whiteSpace c \<longleftrightarrow>
     c = 0x0009 \<or> c = 0x000B \<or> c = 0x000C \<or> c = 0x0020 \<or> c = 0x00A0 \<or> c = 0xFEFF \<or>
     c = 0x1680 \<or> (0x2000 \<le> c \<and> c \<le> 0x200A) \<or> c = 0x202F \<or> c = 0x205F \<or> c = 0x3000 \<or>
     lineTerminator c"

definition trim :: "jsstring \<Rightarrow> jsstring" where
  "trim s = rev (dropWhile whiteSpace (rev (dropWhile whiteSpace s)))"

definition isDigit :: "code_unit \<Rightarrow> bool" where
  "isDigit c \<longleftrightarrow> cu CHR ''0'' \<le> c \<and> c \<le> cu CHR ''9''"

definition digits_value :: "jsstring \<Rightarrow> int" where
  "digits_value s = foldl (\<lambda>a c. 10 * a + uint (c - cu CHR ''0'')) 0 s"

definition StringToNumber :: "jsstring \<Rightarrow> jsnum" where
  "StringToNumber s =
     (let t = trim s
      in if t = [] then Num 0 else if list_all isDigit t then Num (digits_value t) else NaN)"

definition parseTimestamp :: "(jsstring \<Rightarrow> jsnum) \<Rightarrow> jsstring \<Rightarrow> jsnum" where
  "parseTimestamp Number timestamp =
     (let parts = map Number (split_on (cu CHR '':'') timestamp)
      in if length parts = 2 then num_add (num_mul (parts ! 0) (Num 60)) (parts ! 1)
         else if length parts = 3
         then num_add (num_add (num_mul (parts ! 0) (Num 3600)) (num_mul (parts ! 1) (Num 60)))
                (parts ! 2)
         else Num 0)"

text \<open>\<open>parseTimestamp(timestamp || "0:00")\<close>.\<close>

definition seconds_of :: "(jsstring \<Rightarrow> jsnum) \<Rightarrow> jsstring option \<Rightarrow> jsnum" where
  "seconds_of Number timestamp = parseTimestamp Number (or_else timestamp (js ''0:00''))"

subsection \<open>Files and external tools\<close>

text \<open>
  The file system maps a path to what is there. \<open>unlinkSync\<close> removes a file and throws
  on anything else (\<open>None\<close> here); \<open>readFileSync\<close> returns a file's bytes and throws the
  environment's error on anything else.
\<close>

datatype node = File "8 word list" | Directory

type_synonym fs = "jsstring \<Rightarrow> node option"

definition existsSync :: "jsstring \<Rightarrow> fs \<Rightarrow> bool" where
  "existsSync p files = (files p \<noteq> None)"

definition unlinkSync :: "jsstring \<Rightarrow> fs \<Rightarrow> fs option" where
  "unlinkSync p files =
     (case files p of Some (File b) \<Rightarrow> Some (files(p := None)) | _ \<Rightarrow> None)"

text \<open>
  \<open>videoPath\<close> and \<open>framePath\<close> are computed before the \<open>try\<close> from \<open>os.tmpdir()\<close> and
  \<open>Date.now()\<close>: they are the environment's, as are the runtime's \<open>Number\<close>, the error
  \<open>readFileSync\<close> throws and the base64 encoding of a buffer.
  The two shell commands, by tool and interpolated arguments:
  \<^verbatim>\<open>yt-dlp -f "best[height<=720]" --get-url "${videoUrl}"\<close> and
  \<^verbatim>\<open>ffmpeg -ss ${seconds} -i "${directUrl}" -vframes 1 -q:v 2 "${framePath}"\<close>.
  \<open>execAsync\<close> returns the standard output or throws (non-zero exit, missing tool,
  timeout), and may change the files either way.
\<close>

datatype command = YtDlpGetUrl jsstring | FfmpegFrame jsnum jsstring jsstring

record frame_env =
  videoPath :: jsstring
  framePath :: jsstring
  Number :: "jsstring \<Rightarrow> jsnum"
  execAsync :: "command \<Rightarrow> fs \<Rightarrow> jsstring outcome \<times> fs"
  read_error :: "jsstring \<Rightarrow> thrown"
  bufferToBase64 :: "8 word list \<Rightarrow> jsstring"

definition readFileSync :: "frame_env \<Rightarrow> jsstring \<Rightarrow> fs \<Rightarrow> 8 word list outcome" where
  "readFileSync env p files =
     (case files p of Some (File b) \<Rightarrow> Returned b | _ \<Rightarrow> Threw (read_error env p))"

record frame_request =
  req_videoId :: "jsstring option"
  req_timestamp :: "jsstring option"

datatype frame_body = FrameError jsstring | FrameData (frameData: jsstring) (frameNote: "jsstring option")

text \<open>
  The clean-up block, the same in the success path and in the outer \<open>catch\<close>: a throw
  of the first \<open>unlinkSync\<close> skips the second, and is ignored.
\<close>

definition cleanup :: "frame_env \<Rightarrow> fs \<Rightarrow> fs" where
  "cleanup env files =
     (case (if existsSync (videoPath env) files then unlinkSync (videoPath env) files
            else Some files) of
        None \<Rightarrow> files
      | Some files1 \<Rightarrow>
          (case (if existsSync (framePath env) files1 then unlinkSync (framePath env) files1
                 else Some files1) of
             None \<Rightarrow> files1
           | Some files2 \<Rightarrow> files2))"

definition caught_frame :: "thrown \<Rightarrow> frame_body response" where
  "caught_frame e =
     Response 500 (FrameError (case e of Error message \<Rightarrow> message
                                       | NonError \<Rightarrow> js ''Failed to extract frame''))"

text \<open>The inner \<open>catch\<close>: the thumbnail fallback, returned at once.\<close>

definition fallback :: "jsstring \<Rightarrow> frame_body response" where
  "fallback vid =
     Response 200 (FrameData (maxresUrl vid)
       (Some (js ''Frame extraction requires yt-dlp and ffmpeg. Using thumbnail as fallback.'')))"

definition first_line :: "jsstring \<Rightarrow> jsstring" where
  "first_line formatInfo =
     (case split_on (cu CHR 0x0A) (trim formatInfo) of [] \<Rightarrow> [] | l # _ \<Rightarrow> l)"

definition extract_frame ::
  "frame_env \<Rightarrow> jsstring \<Rightarrow> jsstring option \<Rightarrow> fs \<Rightarrow> (frame_body response \<times> command list) \<times> fs" where
  "extract_frame env vid timestamp files =
     (let seconds = seconds_of (Number env) timestamp;
          videoUrl = js ''https://www.youtube.com/watch?v='' @ vid;
          resolve = YtDlpGetUrl videoUrl
      in case execAsync env resolve files of
           (Threw dlError, files1) \<Rightarrow> ((fallback vid, [resolve]), files1)
         | (Returned formatInfo, files1) \<Rightarrow>
             let directUrl = first_line formatInfo;
                 grab = FfmpegFrame seconds directUrl (framePath env)
             in (case execAsync env grab files1 of
                   (Threw dlError, files2) \<Rightarrow> ((fallback vid, [resolve, grab]), files2)
                 | (Returned out, files2) \<Rightarrow>
                     if \<not> existsSync (framePath env) files2
                     then ((Response 500 (FrameError (js ''Failed to extract frame'')),
                            [resolve, grab]), files2)
                     else
                       (case readFileSync env (framePath env) files2 of
                          Threw e \<Rightarrow> ((caught_frame e, [resolve, grab]), cleanup env files2)
                        | Returned frameBuffer \<Rightarrow>
                            ((Response 200 (FrameData
                                (js ''data:image/jpeg;base64,'' @ bufferToBase64 env frameBuffer)
                                None), [resolve, grab]), cleanup env files2))))"

definition POST_frame ::
  "frame_env \<Rightarrow> frame_request outcome \<Rightarrow> fs \<Rightarrow> (frame_body response \<times> command list) \<times> fs" where
  "POST_frame env request files =
     (case request of
        Threw e \<Rightarrow> ((caught_frame e, []), cleanup env files)
      | Returned req \<Rightarrow>
          (case req_videoId req of
             None \<Rightarrow> ((Response 400 (FrameError (js ''Video ID is required'')), []), files)
           | Some vid \<Rightarrow>
               if vid = []
               then ((Response 400 (FrameError (js ''Video ID is required'')), []), files)
               else extract_frame env vid (req_timestamp req) files))"

text \<open>
  An environment in which the URL is resolved and the frame tool writes the frame file
  and then fails, as it does when its time limit ends after the output was opened.
\<close>

definition leftover_env :: frame_env where
  "leftover_env =
     \<lparr>videoPath = js ''/tmp/video-1.mp4'', framePath = js ''/tmp/frame-1.jpg'',
      Number = StringToNumber,
      execAsync = (\<lambda>cmd files.
        case cmd of
          YtDlpGetUrl u \<Rightarrow> (Returned (js ''https://media.example/v.mp4'' @ nl), files)
        | FfmpegFrame s u p \<Rightarrow>
            (Threw (Error (js ''Command failed'')), files(p \<mapsto> File [0xFF, 0xD8]))),
      read_error = (\<lambda>p. Error (js ''ENOENT'')),
      bufferToBase64 = (\<lambda>b. js ''/9g='')\<rparr>"

definition frame_request_1_30 :: frame_request where
  "frame_request_1_30 =
     \<lparr>req_videoId = Some (js ''dQw4w9WgXcQ''), req_timestamp = Some (js ''1:30'')\<rparr>"

section \<open>Properties of the video lookup\<close>

subsection \<open>What \<open>extractVideoId\<close> returns\<close>

lemma idChar_not_stop: "idChar c \<Longrightarrow> \<not> stopChar c"
  by (auto simp: idChar_def stopChar_def cu_def)

lemma idChar_not_slash: "idChar c \<Longrightarrow> c \<noteq> cu CHR ''/''"
  by (auto simp: idChar_def cu_def)

lemma capture_run_Some: "capture_run s = Some m \<Longrightarrow> m \<noteq> [] \<and> (\<forall>c\<in>set m. \<not> stopChar c)"
  by (auto simp: capture_run_def Let_def split: if_splits dest: set_takeWhileD)

lemma literal_then_run_Some:
  "literal_then_run lit s = Some m \<Longrightarrow> prefix lit s \<and> m \<noteq> [] \<and> (\<forall>c\<in>set m. \<not> stopChar c)"
  by (auto simp: literal_then_run_def split: if_splits dest: capture_run_Some)

lemma url_pattern_at_Some:
  "url_pattern_at s = Some m \<Longrightarrow> m \<noteq> [] \<and> (\<forall>c\<in>set m. \<not> stopChar c) \<and> cu CHR ''/'' \<in> set s"
proof -
  assume a: "url_pattern_at s = Some m"
  have sl: "\<And>lit. prefix lit s \<Longrightarrow> cu CHR ''/'' \<in> set lit \<Longrightarrow> cu CHR ''/'' \<in> set s"
    by (auto simp: prefix_def)
  from a consider "literal_then_run (js ''youtube.com/watch?v='') s = Some m"
    | "literal_then_run (js ''youtu.be/'') s = Some m"
    | "literal_then_run (js ''youtube.com/embed/'') s = Some m"
    by (auto simp: url_pattern_at_def split: option.splits)
  then show ?thesis
  proof cases
    case 1
    from literal_then_run_Some[OF 1] sl[of "js ''youtube.com/watch?v=''"] show ?thesis
      by (simp add: js_def)
  next
    case 2
    from literal_then_run_Some[OF 2] sl[of "js ''youtu.be/''"] show ?thesis
      by (simp add: js_def)
  next
    case 3
    from literal_then_run_Some[OF 3] sl[of "js ''youtube.com/embed/''"] show ?thesis
      by (simp add: js_def)
  qed
qed

lemma url_pattern_Some:
  "url_pattern s = Some m \<Longrightarrow> m \<noteq> [] \<and> (\<forall>c\<in>set m. \<not> stopChar c) \<and> cu CHR ''/'' \<in> set s"
proof (induction s)
  case Nil
  then show ?case using url_pattern_at_Some[of "[]" m] by simp
next
  case (Cons c cs)
  show ?case
  proof (cases "url_pattern_at (c # cs)")
    case None
    with Cons show ?thesis by simp
  next
    case (Some a)
    with Cons.prems have "url_pattern_at (c # cs) = Some m" by simp
    from url_pattern_at_Some[OF this] show ?thesis .
  qed
qed

lemma url_pattern_at_not_y: "c \<noteq> cu CHR ''y'' \<Longrightarrow> url_pattern_at (c # s) = None"
  by (simp add: url_pattern_at_def literal_then_run_def js_def)

lemma url_pattern_skip: "cu CHR ''y'' \<notin> set pre \<Longrightarrow> url_pattern (pre @ s) = url_pattern s"
  by (induction pre) (auto simp: url_pattern_at_not_y)

lemma capture_run_id:
  assumes "v \<noteq> []" "list_all idChar v" "suf = [] \<or> stopChar (hd suf)"
  shows "capture_run (v @ suf) = Some v"
proof -
  have "takeWhile (\<lambda>c. \<not> stopChar c) (v @ suf) = v"
  proof (cases suf)
    case Nil
    with assms(2) show ?thesis by (auto simp: list_all_iff idChar_not_stop)
  next
    case (Cons a as)
    with assms(3) have "stopChar a" by simp
    with Cons assms(2) show ?thesis
      by (simp add: takeWhile_append2 list_all_iff idChar_not_stop)
  qed
  with assms(1) show ?thesis by (simp add: capture_run_def)
qed

lemma url_pattern_watch:
  assumes "capture_run r = Some v"
  shows "url_pattern (js ''youtube.com/watch?v='' @ r) = Some v"
  using assms by (simp add: js_def url_pattern_at_def literal_then_run_def)

lemma url_pattern_short:
  assumes "capture_run r = Some v"
  shows "url_pattern (js ''youtu.be/'' @ r) = Some v"
  using assms by (simp add: js_def url_pattern_at_def literal_then_run_def cu_def)

lemma url_pattern_embed:
  assumes "capture_run r = Some v"
  shows "url_pattern (js ''youtube.com/embed/'' @ r) = Some v"
  using assms by (simp add: js_def url_pattern_at_def literal_then_run_def cu_def)

lemma url_pattern_bare: "list_all idChar v \<Longrightarrow> url_pattern v = None"
proof (rule ccontr)
  assume a: "list_all idChar v" and "url_pattern v \<noteq> None"
  then obtain m where "url_pattern v = Some m" by auto
  from url_pattern_Some[OF this] have "cu CHR ''/'' \<in> set v" by simp
  with a show False by (auto simp: list_all_iff dest: idChar_not_slash)
qed

lemma extractVideoId_Some:
  "extractVideoId s = Some m \<Longrightarrow> m \<noteq> [] \<and> (\<forall>c\<in>set m. \<not> stopChar c)"
  by (auto simp: extractVideoId_def bare_pattern_def list_all_iff
      split: option.splits if_splits dest: url_pattern_Some idChar_not_stop)

text \<open>
  The URL pattern captures whatever precedes the next delimiter and never counts: the
  share URL below is accepted with a three-character identifier.
\<close>

theorem extractVideoId_length_counterexample:
  "extractVideoId (js ''https://youtu.be/abc'') = Some (js ''abc'') \<and> length (js ''abc'') = 3"
  by code_simp

text \<open>
  Claim C4, as amended. A string that \<open>extractVideoId\<close> accepts yields a non-empty
  identifier without \<open>&\<close>, newline, \<open>?\<close> or \<open>#\<close> (it need not be 11 characters long).
  For every 11-character identifier \<open>v\<close> over \<open>[a-zA-Z0-9_-]\<close>, the shapes
  \<open>youtube.com/watch?v=v\<close>, \<open>youtu.be/v\<close> and \<open>youtube.com/embed/v\<close>, after any
  text without the letter \<open>y\<close> (such as \<open>https://www.\<close>) and before the end of the
  input or a delimiter, and the bare \<open>v\<close>, all yield \<open>v\<close>.
\<close>

theorem extractVideoId_shapes:
  "(extractVideoId s = Some m \<longrightarrow> m \<noteq> [] \<and> (\<forall>c\<in>set m. \<not> stopChar c)) \<and>
   (length v = 11 \<and> list_all idChar v \<and> cu CHR ''y'' \<notin> set pre \<and> (suf = [] \<or> stopChar (hd suf)) \<longrightarrow>
      extractVideoId (pre @ js ''youtube.com/watch?v='' @ v @ suf) = Some v \<and>
      extractVideoId (pre @ js ''youtu.be/'' @ v @ suf) = Some v \<and>
      extractVideoId (pre @ js ''youtube.com/embed/'' @ v @ suf) = Some v \<and>
      extractVideoId v = Some v)"
proof (intro conjI impI)
  assume "extractVideoId s = Some m"
  from extractVideoId_Some[OF this] show "m \<noteq> []" and "\<forall>c\<in>set m. \<not> stopChar c" by simp_all
next
  assume a: "length v = 11 \<and> list_all idChar v \<and> cu CHR ''y'' \<notin> set pre \<and> (suf = [] \<or> stopChar (hd suf))"
  then have ne: "v \<noteq> []" by auto
  from a ne have cr: "capture_run (v @ suf) = Some v" by (simp add: capture_run_id)
  from a show "extractVideoId (pre @ js ''youtube.com/watch?v='' @ v @ suf) = Some v"
    by (simp add: extractVideoId_def url_pattern_skip url_pattern_watch[OF cr])
  from a show "extractVideoId (pre @ js ''youtu.be/'' @ v @ suf) = Some v"
    by (simp add: extractVideoId_def url_pattern_skip url_pattern_short[OF cr])
  from a show "extractVideoId (pre @ js ''youtube.com/embed/'' @ v @ suf) = Some v"
    by (simp add: extractVideoId_def url_pattern_skip url_pattern_embed[OF cr])
  from a show "extractVideoId v = Some v"
    by (simp add: extractVideoId_def url_pattern_bare bare_pattern_def)
qed

theorem extractVideoId_shapes_witness:
  "extractVideoId (js ''https://youtu.be/abc'') = Some (js ''abc'') \<and> js ''abc'' \<noteq> [] \<and>
   list_all (\<lambda>c. \<not> stopChar c) (js ''abc'') \<and>
   extractVideoId (js ''https://www.'' @ js ''youtube.com/watch?v='' @ js ''dQw4w9WgXcQ'' @ js ''&t=42'')
     = Some (js ''dQw4w9WgXcQ'') \<and>
   extractVideoId (js ''https://www.'' @ js ''youtu.be/'' @ js ''dQw4w9WgXcQ'' @ js ''&t=42'')
     = Some (js ''dQw4w9WgXcQ'') \<and>
   extractVideoId (js ''https://www.'' @ js ''youtube.com/embed/'' @ js ''dQw4w9WgXcQ'' @ js ''&t=42'')
     = Some (js ''dQw4w9WgXcQ'') \<and>
   extractVideoId (js ''dQw4w9WgXcQ'') = Some (js ''dQw4w9WgXcQ'')"
proof -
  have a: "extractVideoId (js ''https://youtu.be/abc'') = Some (js ''abc'')"
    by code_simp
  have b: "length (js ''dQw4w9WgXcQ'') = 11 \<and> list_all idChar (js ''dQw4w9WgXcQ'') \<and>
     cu CHR ''y'' \<notin> set (js ''https://www.'') \<and> (js ''&t=42'' = [] \<or> stopChar (hd (js ''&t=42'')))"
    by (simp add: js_def idChar_def stopChar_def cu_def)
  show ?thesis
    using a b extractVideoId_shapes [of "js ''https://youtu.be/abc''" "js ''abc''"
        "js ''dQw4w9WgXcQ''" "js ''https://www.''" "js ''&t=42''"]
    unfolding list_all_iff by blast
qed

subsection \<open>The lookup handler\<close>

lemma lookup_valid:
  assumes "extractVideoId u = Some v" "fetch env (oembedUrl v) = Returned r" "ok r"
    "json r = Returned (Some md)"
  shows "POST_youtube env (Returned (Some u)) =
     (Response 200 (YtVideo \<lparr>videoId = v, title = md_title md, author = md_author_name md,
        thumbnailUrl = maxresUrl v,
        transcript = slice0 5000 (transcript_of (fetchTranscript env v))\<rparr>),
      [OEmbedFetch (oembedUrl v), TranscriptFetch v])"
proof -
  from assms(1) have "v \<noteq> []" by (simp add: extractVideoId_Some)
  moreover from assms(1) have "u \<noteq> []" by (auto simp: extractVideoId_def bare_pattern_def url_pattern_at_def literal_then_run_def js_def)
  ultimately show ?thesis using assms
    by (simp add: POST_youtube_def lookup_def Let_def)
qed

lemma lookup_success_shape:
  assumes "POST_youtube env request = (Response s (YtVideo d), calls)"
  shows "s = 200 \<and> transcript d = slice0 5000 (transcript_of (fetchTranscript env (videoId d)))"
  using assms
  by (auto simp: POST_youtube_def lookup_def Let_def unexpected_yt_def
      split: outcome.splits option.splits if_splits)

text \<open>
  The empty string matches neither pattern, but the handler's first check answers it
  with \<open>URL is required\<close> before the identifier is extracted.
\<close>

theorem empty_url_counterexample:
  "extractVideoId [] = None \<and>
   POST_youtube sample_yt_env (Returned (Some [])) =
     (Response 400 (YtError (js ''URL is required'')), []) \<and>
   js ''URL is required'' \<noteq> js ''Invalid YouTube URL''"
  by (simp add: POST_youtube_def lookup_def extractVideoId_def bare_pattern_def
      url_pattern_at_def literal_then_run_def js_def)

text \<open>
  Claim C6, as amended. For every non-empty input string on which both patterns fail,
  the lookup endpoint returns status 400 with the error \<open>Invalid YouTube URL\<close> and makes
  no outbound call: neither the oEmbed fetch nor the transcript fetch is reached.
\<close>

theorem invalid_url_400:
  "u \<noteq> [] \<Longrightarrow> extractVideoId u = None \<Longrightarrow>
   POST_youtube env (Returned (Some u)) = (Response 400 (YtError (js ''Invalid YouTube URL'')), [])"
  by (simp add: POST_youtube_def lookup_def)

theorem invalid_url_400_witness:
  "js ''not a video'' \<noteq> [] \<and> extractVideoId (js ''not a video'') = None \<and>
   POST_youtube sample_yt_env (Returned (Some (js ''not a video''))) =
     (Response 400 (YtError (js ''Invalid YouTube URL'')), [])"
proof -
  have a: "js ''not a video'' \<noteq> []" by (simp add: js_def)
  have b: "extractVideoId (js ''not a video'') = None" by code_simp
  from a b invalid_url_400 [OF a b, of sample_yt_env] show ?thesis by simp
qed

text \<open>
  Claim C7. When the identifier is extracted, the oEmbed fetch returns an \<open>ok\<close>
  response whose body parses to an object, and the transcript fetch throws, the endpoint
  returns status 200 with the success shape and the empty transcript. Whatever the
  transcript fetch does, the status and the fields \<open>videoId\<close>, \<open>title\<close>, \<open>author\<close> and
  \<open>thumbnailUrl\<close> are the same.
\<close>

theorem transcript_failure_absorbed:
  assumes "extractVideoId u = Some v" "fetch env (oembedUrl v) = Returned r" "ok r"
    "json r = Returned (Some md)" "fetchTranscript env v = Threw e"
  shows "POST_youtube env (Returned (Some u)) =
     (Response 200 (YtVideo \<lparr>videoId = v, title = md_title md, author = md_author_name md,
        thumbnailUrl = maxresUrl v, transcript = []\<rparr>),
      [OEmbedFetch (oembedUrl v), TranscriptFetch v]) \<and>
    (\<forall>f. \<exists>t. fst (POST_youtube (env\<lparr>fetchTranscript := f\<rparr>) (Returned (Some u))) =
       Response 200 (YtVideo \<lparr>videoId = v, title = md_title md, author = md_author_name md,
        thumbnailUrl = maxresUrl v, transcript = t\<rparr>))"
proof
  from lookup_valid[OF assms(1-4)] assms(5)
  show "POST_youtube env (Returned (Some u)) =
     (Response 200 (YtVideo \<lparr>videoId = v, title = md_title md, author = md_author_name md,
        thumbnailUrl = maxresUrl v, transcript = []\<rparr>),
      [OEmbedFetch (oembedUrl v), TranscriptFetch v])"
    by (simp add: transcript_of_def slice0_def)
next
  show "\<forall>f. \<exists>t. fst (POST_youtube (env\<lparr>fetchTranscript := f\<rparr>) (Returned (Some u))) =
       Response 200 (YtVideo \<lparr>videoId = v, title = md_title md, author = md_author_name md,
        thumbnailUrl = maxresUrl v, transcript = t\<rparr>)"
  proof
    fix f
    have "fetch (env\<lparr>fetchTranscript := f\<rparr>) (oembedUrl v) = Returned r"
      using assms(2) by simp
    from lookup_valid[OF assms(1) this assms(3,4)]
    show "\<exists>t. fst (POST_youtube (env\<lparr>fetchTranscript := f\<rparr>) (Returned (Some u))) =
       Response 200 (YtVideo \<lparr>videoId = v, title = md_title md, author = md_author_name md,
        thumbnailUrl = maxresUrl v, transcript = t\<rparr>)"
      by simp
  qed
qed

theorem transcript_failure_absorbed_witness:
  "POST_youtube failing_transcript_env (Returned (Some (js ''https://youtu.be/dQw4w9WgXcQ''))) =
     (Response 200 (YtVideo \<lparr>videoId = js ''dQw4w9WgXcQ'', title = Some (js ''A title''),
        author = Some (js ''An author''), thumbnailUrl = maxresUrl (js ''dQw4w9WgXcQ''),
        transcript = []\<rparr>),
      [OEmbedFetch (oembedUrl (js ''dQw4w9WgXcQ'')), TranscriptFetch (js ''dQw4w9WgXcQ'')]) \<and>
   fst (POST_youtube (failing_transcript_env\<lparr>fetchTranscript := fetchTranscript sample_yt_env\<rparr>)
          (Returned (Some (js ''https://youtu.be/dQw4w9WgXcQ'')))) \<noteq>
     Response 500 (YtError (js ''Failed to fetch video data''))"
proof -
  let ?md = "\<lparr>md_title = Some (js ''A title''), md_author_name = Some (js ''An author'')\<rparr>"
  let ?r = "\<lparr>ok = True, json = Returned (Some ?md)\<rparr>"
  have a: "extractVideoId (js ''https://youtu.be/dQw4w9WgXcQ'') = Some (js ''dQw4w9WgXcQ'')"
    by code_simp
  have b: "fetch failing_transcript_env (oembedUrl (js ''dQw4w9WgXcQ'')) = Returned ?r"
    by (simp add: failing_transcript_env_def sample_yt_env_def)
  have c: "ok ?r" and d: "json ?r = Returned (Some ?md)"
    by simp_all
  have e: "fetchTranscript failing_transcript_env (js ''dQw4w9WgXcQ'') =
      Threw (Error (js ''Transcript is disabled''))"
    by (simp add: failing_transcript_env_def)
  from transcript_failure_absorbed [OF a b c d e]
  have w1: "POST_youtube failing_transcript_env (Returned (Some (js ''https://youtu.be/dQw4w9WgXcQ''))) =
     (Response 200 (YtVideo \<lparr>videoId = js ''dQw4w9WgXcQ'', title = Some (js ''A title''),
        author = Some (js ''An author''), thumbnailUrl = maxresUrl (js ''dQw4w9WgXcQ''),
        transcript = []\<rparr>),
      [OEmbedFetch (oembedUrl (js ''dQw4w9WgXcQ'')), TranscriptFetch (js ''dQw4w9WgXcQ'')])"
    and w2: "\<forall>f. \<exists>t. fst (POST_youtube (failing_transcript_env\<lparr>fetchTranscript := f\<rparr>)
          (Returned (Some (js ''https://youtu.be/dQw4w9WgXcQ'')))) =
     Response 200 (YtVideo \<lparr>videoId = js ''dQw4w9WgXcQ'', title = Some (js ''A title''),
        author = Some (js ''An author''), thumbnailUrl = maxresUrl (js ''dQw4w9WgXcQ''),
        transcript = t\<rparr>)"
    by simp_all
  from w2 obtain t where
    "fst (POST_youtube (failing_transcript_env\<lparr>fetchTranscript := fetchTranscript sample_yt_env\<rparr>)
          (Returned (Some (js ''https://youtu.be/dQw4w9WgXcQ'')))) =
     Response 200 (YtVideo \<lparr>videoId = js ''dQw4w9WgXcQ'', title = Some (js ''A title''),
        author = Some (js ''An author''), thumbnailUrl = maxresUrl (js ''dQw4w9WgXcQ''),
        transcript = t\<rparr>)"
    by blast
  with w1 show ?thesis by simp
qed

lemma join_separators:
  "join sep (x # rest) = x @ concat (map (\<lambda>y. sep @ y) rest)"
  by (induction rest arbitrary: x) simp_all

text \<open>
  Claim C8. In every successful lookup response the transcript is the first 5000 code
  units of the caption fragments joined with single spaces, that is, of the first
  fragment followed by every further fragment after one space (of the empty string when
  the transcript fetch threw or returned no fragment); so its length is at most 5000.
\<close>

theorem transcript_truncated:
  assumes "POST_youtube env request = (Response s (YtVideo d), calls)"
  shows "length (transcript d) \<le> 5000 \<and>
     transcript d =
       take 5000 (case fetchTranscript env (videoId d) of
                    Threw e \<Rightarrow> []
                  | Returned transcriptData \<Rightarrow>
                      (case map item_text transcriptData of
                         [] \<Rightarrow> []
                       | x # rest \<Rightarrow> x @ concat (map (\<lambda>y. cu CHR '' '' # y) rest)))"
proof -
  have j: "join (js '' '') fs =
      (case fs of [] \<Rightarrow> [] | x # rest \<Rightarrow> x @ concat (map (\<lambda>y. cu CHR '' '' # y) rest))" for fs
    by (cases fs) (simp_all add: join_separators js_def)
  from lookup_success_shape [OF assms] show ?thesis
    by (simp add: slice0_def transcript_of_def j split: outcome.splits)
qed

theorem transcript_truncated_witness:
  "POST_youtube long_transcript_env (Returned (Some (js ''dQw4w9WgXcQ''))) =
     (Response 200 (YtVideo \<lparr>videoId = js ''dQw4w9WgXcQ'', title = Some (js ''A title''),
        author = Some (js ''An author''), thumbnailUrl = maxresUrl (js ''dQw4w9WgXcQ''),
        transcript = replicate 3000 (cu CHR ''a'') @ js '' never '' @ replicate 1993 (cu CHR ''b'')\<rparr>),
      [OEmbedFetch (oembedUrl (js ''dQw4w9WgXcQ'')), TranscriptFetch (js ''dQw4w9WgXcQ'')]) \<and>
   length (replicate 3000 (cu CHR ''a'') @ js '' never '' @ replicate 1993 (cu CHR ''b'')) = 5000 \<and>
   transcript_of (fetchTranscript sample_yt_env (js ''dQw4w9WgXcQ'')) = js ''never gonna''"
proof -
  let ?md = "\<lparr>md_title = Some (js ''A title''), md_author_name = Some (js ''An author'')\<rparr>"
  let ?r = "\<lparr>ok = True, json = Returned (Some ?md)\<rparr>"
  let ?tr = "replicate 3000 (cu CHR ''a'') @ js '' never '' @ replicate 1993 (cu CHR ''b'')"
  have a: "extractVideoId (js ''dQw4w9WgXcQ'') = Some (js ''dQw4w9WgXcQ'')"
    by code_simp
  have b: "fetch long_transcript_env (oembedUrl (js ''dQw4w9WgXcQ'')) = Returned ?r"
    by (simp add: long_transcript_env_def sample_yt_env_def)
  from lookup_valid [OF a b]
  obtain tr where p: "POST_youtube long_transcript_env (Returned (Some (js ''dQw4w9WgXcQ''))) =
     (Response 200 (YtVideo \<lparr>videoId = js ''dQw4w9WgXcQ'', title = Some (js ''A title''),
        author = Some (js ''An author''), thumbnailUrl = maxresUrl (js ''dQw4w9WgXcQ''),
        transcript = tr\<rparr>),
      [OEmbedFetch (oembedUrl (js ''dQw4w9WgXcQ'')), TranscriptFetch (js ''dQw4w9WgXcQ'')])"
    by simp
  have t: "fetchTranscript long_transcript_env v = Returned
        [\<lparr>item_text = replicate 3000 (cu CHR ''a'')\<rparr>, \<lparr>item_text = js ''never''\<rparr>,
         \<lparr>item_text = replicate 3000 (cu CHR ''b'')\<rparr>]" for v
    by (simp add: long_transcript_env_def)
  from transcript_truncated [OF p] t have "tr = ?tr"
    by (simp add: js_def)
  moreover have "length ?tr = 5000" by (simp add: js_def)
  moreover have "transcript_of (fetchTranscript sample_yt_env (js ''dQw4w9WgXcQ'')) = js ''never gonna''"
    by (simp add: transcript_of_def sample_yt_env_def js_def)
  ultimately show ?thesis using p by simp
qed

section \<open>Properties of image generation\<close>

subsection \<open>Output assembly\<close>

lemma scan_parts_last:
  "scan_parts ps (d, i) =
     (last_or d (text_parts ps),
      if image_parts ps = [] then i else Some (last (image_parts ps)))"
proof (induction ps arbitrary: d i)
  case Nil
  show ?case by (simp add: last_or_def text_parts_def image_parts_def List.map_filter_simps)
next
  case (Cons p ps)
  show ?case
    by (simp add: Cons.IH)
       (auto simp: last_or_def text_parts_def image_parts_def List.map_filter_simps
             split: option.splits)
qed

lemma assemble_last:
  "assemble d r =
     (if image_parts (response_parts r) = [] then no_image
      else Response 200 (GenImage
             \<lparr>imagePrompt = last_or d (text_parts (response_parts r)),
              imageData = js ''data:image/png;base64,'' @ last (image_parts (response_parts r)),
              width = 1200, height = 628\<rparr>))"
proof -
  have ne: "image_parts ps \<noteq> [] \<Longrightarrow> last (image_parts ps) \<noteq> []" for ps
  proof -
    assume "image_parts ps \<noteq> []"
    then have "last (image_parts ps) \<in> set (image_parts ps)" by simp
    then show ?thesis by (simp add: image_parts_def)
  qed
  show ?thesis
    by (simp add: assemble_def scan_parts_last ne SHOPIFY_IMAGE_WIDTH_def SHOPIFY_IMAGE_HEIGHT_def)
qed

lemma assemble_success:
  "assemble d r = Response s (GenImage g) \<Longrightarrow> s = 200 \<and> width g = 1200 \<and> height g = 628"
  by (auto simp: assemble_last no_image_def split: if_splits)

lemma caught_gen_error: "caught_gen e \<noteq> Response s (GenImage g)"
  by (simp add: caught_gen_def)

text \<open>
  A response with two text parts and two image parts: both endpoints report the second
  text and return the second image.
\<close>

theorem first_part_counterexample:
  "text_parts (response_parts two_of_each) = [js ''first'', js ''second''] \<and>
   image_parts (response_parts two_of_each) = [js ''AAAA'', js ''BBBB''] \<and>
   fst (POST_generate sample_gen_env (Returned sample_request)) =
     Response 200 (GenImage \<lparr>imagePrompt = js ''second'',
       imageData = js ''data:image/png;base64,BBBB'', width = 1200, height = 628\<rparr>) \<and>
   fst (POST_enhanced sample_gen_env (Returned sample_request)) =
     Response 200 (GenImage \<lparr>imagePrompt = js ''second'',
       imageData = js ''data:image/png;base64,BBBB'', width = 1200, height = 628\<rparr>) \<and>
   js ''second'' \<noteq> js ''first'' \<and> js ''BBBB'' \<noteq> js ''AAAA''"
proof -
  have "js ''key'' \<noteq> []" "js ''second'' \<noteq> []" "js ''first'' \<noteq> []"
    "js ''AAAA'' \<noteq> []" "js ''BBBB'' \<noteq> []"
    "js ''second'' \<noteq> js ''first''" "js ''BBBB'' \<noteq> js ''AAAA''"
    "js ''data:image/png;base64,'' @ js ''BBBB'' = js ''data:image/png;base64,BBBB''"
    by (simp_all add: js_def cu_def)
  then show ?thesis
    by (simp add: POST_generate_def POST_enhanced_def Let_def assemble_def sample_gen_env_def
      sample_request_def two_of_each_def response_parts_def truthy_def build_parts_def
      generate_parts_def text_parts_def image_parts_def List.map_filter_simps
      SHOPIFY_IMAGE_WIDTH_def SHOPIFY_IMAGE_HEIGHT_def)
qed

text \<open>
  Claim C3, as amended. When the provider's response has a non-empty image part, both
  generation endpoints answer 200 with the LAST non-empty text part as \<open>imagePrompt\<close> and
  the LAST non-empty inline image as \<open>imageData\<close>, labelled PNG. With no non-empty text
  part, \<open>imagePrompt\<close> is the generation prompt that was sent in \<open>/api/generate\<close>, and
  in the enhanced endpoint the static label \<open>Enhanced from source image\<close> (mode
  \<open>enhance\<close>) or \<open>AI generated\<close>.
\<close>

theorem last_part_wins:
  "(truthy (GEMINI_API_KEY env) \<and>
    generateContent env (generate_call [TextPart (generationPrompt req)]) = Returned r \<and>
    image_parts (response_parts r) \<noteq> [] \<longrightarrow>
      fst (POST_generate env (Returned req)) =
        Response 200 (GenImage
          \<lparr>imagePrompt = last_or (generationPrompt req) (text_parts (response_parts r)),
           imageData = js ''data:image/png;base64,'' @ last (image_parts (response_parts r)),
           width = 1200, height = 628\<rparr>)) \<and>
   (truthy (GEMINI_API_KEY env) \<and> build_parts env req = (Returned ps, calls) \<and>
    generateContent env (generate_call ps) = Returned r \<and>
    image_parts (response_parts r) \<noteq> [] \<longrightarrow>
      fst (POST_enhanced env (Returned req)) =
        Response 200 (GenImage
          \<lparr>imagePrompt = last_or (default_label req) (text_parts (response_parts r)),
           imageData = js ''data:image/png;base64,'' @ last (image_parts (response_parts r)),
           width = 1200, height = 628\<rparr>))"
  by (simp add: POST_generate_def POST_enhanced_def Let_def assemble_last)

theorem last_part_wins_witness:
  "fst (POST_generate sample_gen_env (Returned sample_request)) =
     Response 200 (GenImage
       \<lparr>imagePrompt = last_or (generationPrompt sample_request) [js ''first'', js ''second''],
        imageData = js ''data:image/png;base64,'' @ last [js ''AAAA'', js ''BBBB''],
        width = 1200, height = 628\<rparr>) \<and>
   fst (POST_enhanced sample_gen_env (Returned sample_request)) =
     Response 200 (GenImage
       \<lparr>imagePrompt = last_or (default_label sample_request) [js ''first'', js ''second''],
        imageData = js ''data:image/png;base64,'' @ last [js ''AAAA'', js ''BBBB''],
        width = 1200, height = 628\<rparr>)"
proof -
  have ne: "js ''key'' \<noteq> []" "js ''second'' \<noteq> []" "js ''first'' \<noteq> []"
    "js ''AAAA'' \<noteq> []" "js ''BBBB'' \<noteq> []"
    by (simp_all add: js_def)
  have k: "truthy (GEMINI_API_KEY sample_gen_env)"
    using ne by (simp add: sample_gen_env_def truthy_def)
  have g: "generateContent sample_gen_env c = Returned two_of_each" for c
    by (simp add: sample_gen_env_def)
  have b: "build_parts sample_gen_env sample_request =
      (Returned [TextPart (generationPrompt sample_request)], [])"
    by (simp add: build_parts_def sample_request_def generate_parts_def)
  have t: "text_parts (response_parts two_of_each) = [js ''first'', js ''second'']"
    using ne by (simp add: two_of_each_def response_parts_def text_parts_def List.map_filter_simps)
  have i: "image_parts (response_parts two_of_each) = [js ''AAAA'', js ''BBBB'']"
    using ne by (simp add: two_of_each_def response_parts_def image_parts_def List.map_filter_simps)
  show ?thesis
    using last_part_wins [of sample_gen_env sample_request two_of_each
        "[TextPart (generationPrompt sample_request)]" "[]"] k g b t i
    by simp
qed

text \<open>
  Claim C9. Every successful response of either generation endpoint has status 200 and
  reports width 1200 and height 628, whatever the provider returned.
\<close>

theorem fixed_dimensions:
  "(POST_generate env request = (Response s (GenImage g), calls) \<longrightarrow>
      s = 200 \<and> width g = 1200 \<and> height g = 628) \<and>
   (POST_enhanced env request = (Response s (GenImage g), calls) \<longrightarrow>
      s = 200 \<and> width g = 1200 \<and> height g = 628)"
  by (auto simp: POST_generate_def POST_enhanced_def Let_def caught_gen_error
      dest: assemble_success split: outcome.splits if_splits prod.splits)

theorem fixed_dimensions_witness:
  "POST_generate sample_gen_env (Returned sample_request) =
     (Response 200 (GenImage \<lparr>imagePrompt = js ''second'',
        imageData = js ''data:image/png;base64,BBBB'', width = 1200, height = 628\<rparr>),
      [GenerateContent (generate_call [TextPart (generationPrompt sample_request)])]) \<and>
   width \<lparr>imagePrompt = js ''second'',
        imageData = js ''data:image/png;base64,BBBB'', width = 1200, height = 628\<rparr> = 1200"
proof -
  have ne: "js ''key'' \<noteq> []" "js ''second'' \<noteq> []" "js ''first'' \<noteq> []"
    "js ''AAAA'' \<noteq> []" "js ''BBBB'' \<noteq> []"
    by (simp_all add: js_def)
  have p: "POST_generate sample_gen_env (Returned sample_request) =
     (Response 200 (GenImage \<lparr>imagePrompt = js ''second'',
        imageData = js ''data:image/png;base64,BBBB'', width = 1200, height = 628\<rparr>),
      [GenerateContent (generate_call [TextPart (generationPrompt sample_request)])])"
    using ne
    by (simp add: POST_generate_def Let_def assemble_def sample_gen_env_def
      two_of_each_def response_parts_def truthy_def
      SHOPIFY_IMAGE_WIDTH_def SHOPIFY_IMAGE_HEIGHT_def) (simp add: js_def)
  from p fixed_dimensions [of sample_gen_env "Returned sample_request" 200
      "\<lparr>imagePrompt = js ''second'',
        imageData = js ''data:image/png;base64,BBBB'', width = 1200, height = 628\<rparr>"
      "[GenerateContent (generate_call [TextPart (generationPrompt sample_request)])]"]
  show ?thesis by blast
qed

subsection \<open>Enhance mode\<close>

lemma data_uri_match_None_parts:
  assumes "req_mode req = Some (js ''enhance'')" "req_sourceImage req = Some src"
    "prefix (js ''data:'') src" "data_uri_match src = None"
  shows "build_parts env req = (Threw (Error (js ''Invalid base64 image format'')), [])"
proof -
  from assms(3) have "src \<noteq> []" by (auto simp: js_def)
  with assms show ?thesis by (simp add: build_parts_def enhance_parts_def)
qed

text \<open>
  A source image that starts with \<open>data:\<close> and lacks \<open>;base64,\<close>: the status is 500,
  not 400.
\<close>

theorem malformed_data_uri_counterexample:
  "req_mode malformed_request = Some (js ''enhance'') \<and>
   req_sourceImage malformed_request = Some (js ''data:image/png,AAAA'') \<and>
   prefix (js ''data:'') (js ''data:image/png,AAAA'') \<and>
   data_uri_match (js ''data:image/png,AAAA'') = None \<and>
   status (fst (POST_enhanced sample_gen_env (Returned malformed_request))) = 500"
proof -
  have d: "data_uri_match (js ''data:image/png,AAAA'') = None"
    by code_simp
  have e: "js ''data:image/png,AAAA'' \<noteq> []" "js ''key'' \<noteq> []"
    "prefix (js ''data:'') (js ''data:image/png,AAAA'')"
    by (simp_all add: js_def)
  from d e show ?thesis
    by (simp add: POST_enhanced_def build_parts_def enhance_parts_def malformed_request_def
        sample_request_def sample_gen_env_def truthy_def caught_gen_def)
qed

text \<open>
  Claim C1, as amended. For every request to the enhanced endpoint with mode \<open>enhance\<close>
  and a \<open>sourceImage\<close> that starts with \<open>data:\<close> but does not match
  \<open>data:<mime>;base64,<payload>\<close>, the endpoint fails with status 500 (the handler
  has no 400 response), with the error \<open>Invalid base64 image format\<close> when the API key is
  configured and \<open>GEMINI_API_KEY not configured\<close> otherwise, and makes no call to the
  image-generation provider nor any other outbound call.
\<close>

theorem malformed_data_uri_500:
  assumes "req_mode req = Some (js ''enhance'')" "req_sourceImage req = Some src"
    "prefix (js ''data:'') src" "data_uri_match src = None"
  shows "POST_enhanced env (Returned req) =
     (Response 500 (GenError (if truthy (GEMINI_API_KEY env)
                              then js ''Invalid base64 image format''
                              else js ''GEMINI_API_KEY not configured'')), [])"
  using data_uri_match_None_parts [OF assms, of env]
  by (simp add: POST_enhanced_def caught_gen_def)

theorem malformed_data_uri_500_witness:
  "req_mode malformed_request = Some (js ''enhance'') \<and>
   req_sourceImage malformed_request = Some (js ''data:image/png,AAAA'') \<and>
   prefix (js ''data:'') (js ''data:image/png,AAAA'') \<and>
   data_uri_match (js ''data:image/png,AAAA'') = None \<and>
   POST_enhanced sample_gen_env (Returned malformed_request) =
     (Response 500 (GenError (js ''Invalid base64 image format'')), [])"
proof -
  have a: "req_mode malformed_request = Some (js ''enhance'')"
    and b: "req_sourceImage malformed_request = Some (js ''data:image/png,AAAA'')"
    by (simp_all add: malformed_request_def sample_request_def)
  have c: "prefix (js ''data:'') (js ''data:image/png,AAAA'')"
    by (simp add: js_def)
  have d: "data_uri_match (js ''data:image/png,AAAA'') = None"
    by code_simp
  have k: "truthy (GEMINI_API_KEY sample_gen_env)"
    by (simp add: sample_gen_env_def truthy_def js_def)
  from a b c d k malformed_data_uri_500 [OF a b c d, of sample_gen_env]
  show ?thesis by simp
qed

lemma dimensions_text: "dimensions = js ''1200x628''"
  by code_simp

text \<open>
  Without a configured API key the handler answers before it looks at the mode: nothing
  is built or sent, although the provider would have returned an image.
\<close>

theorem enhance_without_key_counterexample:
  "req_mode enhance_without_source = Some (js ''enhance'') \<and>
   req_sourceImage enhance_without_source = None \<and>
   generateContent no_key_env (generate_call [TextPart (generationPrompt enhance_without_source)]) =
     Returned two_of_each \<and>
   image_parts (response_parts two_of_each) = [js ''AAAA'', js ''BBBB''] \<and>
   POST_enhanced no_key_env (Returned enhance_without_source) =
     (Response 500 (GenError (js ''GEMINI_API_KEY not configured'')), [])"
proof -
  have ne: "js ''AAAA'' \<noteq> []" "js ''BBBB'' \<noteq> []"
    by (simp_all add: js_def)
  then show ?thesis
    by (simp add: enhance_without_source_def sample_request_def no_key_env_def sample_gen_env_def
        POST_enhanced_def truthy_def two_of_each_def response_parts_def image_parts_def
        List.map_filter_simps)
qed

text \<open>
  Claim C10, as amended. For every request to the enhanced endpoint with mode \<open>enhance\<close>
  and a missing or empty \<open>sourceImage\<close>, the choice of parts does not fail on the input
  and is the single text part of generate mode, whose text is the generation prompt
  written out below. When the API key is configured, the endpoint sends exactly that
  part to the provider, and when the provider returns an image it answers 200 with the
  normal success shape. When the API key is not configured, it answers 500 with
  \<open>GEMINI_API_KEY not configured\<close> and makes no call.
\<close>

theorem enhance_without_source_generates:
  assumes "req_mode req = Some (js ''enhance'')"
    "req_sourceImage req = None \<or> req_sourceImage req = Some []"
  shows
   "build_parts env req = (Returned [TextPart (generationPrompt req)], []) \<and>
    generationPrompt req =
      js ''Create a professional, high-quality blog featured image for the following content:\<newline>\<newline>Topic: '' @
      (case req_title req of None \<Rightarrow> js ''undefined'' | Some t \<Rightarrow> t) @
      js ''\<newline>'' @
      (case req_transcript req of
         None \<Rightarrow> []
       | Some t \<Rightarrow> if t = [] then [] else js ''Context: '' @ take 1500 t) @
      js ''\<newline>\<newline>Requirements:\<newline>- Style: '' @
      (case req_style req of
         None \<Rightarrow> js ''modern, clean, professional''
       | Some st \<Rightarrow> if st = [] then js ''modern, clean, professional'' else st) @
      js ''\<newline>- Aspect ratio: 16:9 (horizontal, suitable for 1200x628)\<newline>- NO text, words, or letters in the image\<newline>- Visually striking and eye-catching for a blog header\<newline>- Professional quality, photorealistic or high-quality illustration\<newline>- Rich colors and good composition\<newline>- Represents the main theme/topic clearly'' \<and>
    (truthy (GEMINI_API_KEY env) \<longrightarrow>
       snd (POST_enhanced env (Returned req)) =
         [GenerateContent \<lparr>model = js ''gemini-2.5-flash-image'',
            contents = [TextPart (generationPrompt req)],
            responseModalities = [js ''TEXT'', js ''IMAGE'']\<rparr>] \<and>
       (\<forall>r. generateContent env (generate_call [TextPart (generationPrompt req)]) = Returned r \<and>
            image_parts (response_parts r) \<noteq> [] \<longrightarrow>
          fst (POST_enhanced env (Returned req)) =
            Response 200 (GenImage
              \<lparr>imagePrompt = last_or (js ''Enhanced from source image'') (text_parts (response_parts r)),
               imageData = js ''data:image/png;base64,'' @ last (image_parts (response_parts r)),
               width = 1200, height = 628\<rparr>))) \<and>
    (\<not> truthy (GEMINI_API_KEY env) \<longrightarrow>
       POST_enhanced env (Returned req) =
         (Response 500 (GenError (js ''GEMINI_API_KEY not configured'')), []))"
proof (intro conjI impI allI)
  from assms(2) show b: "build_parts env req = (Returned [TextPart (generationPrompt req)], [])"
    by (auto simp: build_parts_def generate_parts_def)
  show "generationPrompt req =
      js ''Create a professional, high-quality blog featured image for the following content:\<newline>\<newline>Topic: '' @
      (case req_title req of None \<Rightarrow> js ''undefined'' | Some t \<Rightarrow> t) @
      js ''\<newline>'' @
      (case req_transcript req of
         None \<Rightarrow> []
       | Some t \<Rightarrow> if t = [] then [] else js ''Context: '' @ take 1500 t) @
      js ''\<newline>\<newline>Requirements:\<newline>- Style: '' @
      (case req_style req of
         None \<Rightarrow> js ''modern, clean, professional''
       | Some st \<Rightarrow> if st = [] then js ''modern, clean, professional'' else st) @
      js ''\<newline>- Aspect ratio: 16:9 (horizontal, suitable for 1200x628)\<newline>- NO text, words, or letters in the image\<newline>- Visually striking and eye-catching for a blog header\<newline>- Professional quality, photorealistic or high-quality illustration\<newline>- Rich colors and good composition\<newline>- Represents the main theme/topic clearly''"
    by (simp add: generationPrompt_def interpolate_def context_line_def or_else_def slice0_def
        dimensions_text nl_def js_def split: option.splits)
  {
    assume k: "truthy (GEMINI_API_KEY env)"
    from k b show "snd (POST_enhanced env (Returned req)) =
         [GenerateContent \<lparr>model = js ''gemini-2.5-flash-image'',
            contents = [TextPart (generationPrompt req)],
            responseModalities = [js ''TEXT'', js ''IMAGE'']\<rparr>]"
      by (simp add: POST_enhanced_def generate_call_def split: outcome.splits)
    fix r
    assume "generateContent env (generate_call [TextPart (generationPrompt req)]) = Returned r \<and>
            image_parts (response_parts r) \<noteq> []"
    with k b assms(1) show "fst (POST_enhanced env (Returned req)) =
            Response 200 (GenImage
              \<lparr>imagePrompt = last_or (js ''Enhanced from source image'') (text_parts (response_parts r)),
               imageData = js ''data:image/png;base64,'' @ last (image_parts (response_parts r)),
               width = 1200, height = 628\<rparr>)"
      by (simp add: POST_enhanced_def assemble_last default_label_def)
  }
  assume "\<not> truthy (GEMINI_API_KEY env)"
  then show "POST_enhanced env (Returned req) =
         (Response 500 (GenError (js ''GEMINI_API_KEY not configured'')), [])"
    by (simp add: POST_enhanced_def)
qed

theorem enhance_without_source_generates_witness:
  "POST_enhanced sample_gen_env (Returned enhance_without_source) =
     (Response 200 (GenImage
        \<lparr>imagePrompt = js ''second'', imageData = js ''data:image/png;base64,BBBB'',
         width = 1200, height = 628\<rparr>),
      [GenerateContent \<lparr>model = js ''gemini-2.5-flash-image'',
         contents = [TextPart (js ''Create a professional, high-quality blog featured image for the following content:\<newline>\<newline>Topic: A title\<newline>\<newline>\<newline>Requirements:\<newline>- Style: modern, clean, professional\<newline>- Aspect ratio: 16:9 (horizontal, suitable for 1200x628)\<newline>- NO text, words, or letters in the image\<newline>- Visually striking and eye-catching for a blog header\<newline>- Professional quality, photorealistic or high-quality illustration\<newline>- Rich colors and good composition\<newline>- Represents the main theme/topic clearly'')],
         responseModalities = [js ''TEXT'', js ''IMAGE'']\<rparr>]) \<and>
   POST_enhanced no_key_env (Returned enhance_without_source) =
     (Response 500 (GenError (js ''GEMINI_API_KEY not configured'')), [])"
proof -
  have ne: "js ''key'' \<noteq> []" "js ''second'' \<noteq> []" "js ''first'' \<noteq> []"
    "js ''AAAA'' \<noteq> []" "js ''BBBB'' \<noteq> []"
    by (simp_all add: js_def)
  have k: "truthy (GEMINI_API_KEY sample_gen_env)"
    using ne by (simp add: sample_gen_env_def truthy_def)
  have nk: "\<not> truthy (GEMINI_API_KEY no_key_env)"
    by (simp add: no_key_env_def sample_gen_env_def truthy_def)
  have m: "req_mode enhance_without_source = Some (js ''enhance'')"
    and s: "req_sourceImage enhance_without_source = None \<or>
            req_sourceImage enhance_without_source = Some []"
    by (simp_all add: enhance_without_source_def sample_request_def)
  have f: "req_title enhance_without_source = Some (js ''A title'')"
    "req_transcript enhance_without_source = None" "req_style enhance_without_source = None"
    by (simp_all add: enhance_without_source_def sample_request_def)
  have g: "generateContent sample_gen_env c = Returned two_of_each" for c
    by (simp add: sample_gen_env_def)
  have t: "last_or d (text_parts (response_parts two_of_each)) = js ''second''" for d
    using ne by (simp add: two_of_each_def response_parts_def text_parts_def last_or_def
        List.map_filter_simps)
  have i: "image_parts (response_parts two_of_each) = [js ''AAAA'', js ''BBBB'']"
    using ne by (simp add: two_of_each_def response_parts_def image_parts_def List.map_filter_simps)
  have d: "js ''data:image/png;base64,'' @ js ''BBBB'' = js ''data:image/png;base64,BBBB''"
    by (simp add: js_def)
  note w1 = enhance_without_source_generates [OF m s, of sample_gen_env]
  note w2 = enhance_without_source_generates [OF m s, of no_key_env]
  from w1 have p: "generationPrompt enhance_without_source =
      js ''Create a professional, high-quality blog featured image for the following content:\<newline>\<newline>Topic: A title\<newline>\<newline>\<newline>Requirements:\<newline>- Style: modern, clean, professional\<newline>- Aspect ratio: 16:9 (horizontal, suitable for 1200x628)\<newline>- NO text, words, or letters in the image\<newline>- Visually striking and eye-catching for a blog header\<newline>- Professional quality, photorealistic or high-quality illustration\<newline>- Rich colors and good composition\<newline>- Represents the main theme/topic clearly''"
    by (simp add: f js_def)
  from w1 k g i t d have
    "fst (POST_enhanced sample_gen_env (Returned enhance_without_source)) =
       Response 200 (GenImage
        \<lparr>imagePrompt = js ''second'', imageData = js ''data:image/png;base64,BBBB'',
         width = 1200, height = 628\<rparr>)"
    and "snd (POST_enhanced sample_gen_env (Returned enhance_without_source)) =
      [GenerateContent \<lparr>model = js ''gemini-2.5-flash-image'',
         contents = [TextPart (generationPrompt enhance_without_source)],
         responseModalities = [js ''TEXT'', js ''IMAGE'']\<rparr>]"
    by simp_all
  then have "POST_enhanced sample_gen_env (Returned enhance_without_source) =
     (Response 200 (GenImage
        \<lparr>imagePrompt = js ''second'', imageData = js ''data:image/png;base64,BBBB'',
         width = 1200, height = 628\<rparr>),
      [GenerateContent \<lparr>model = js ''gemini-2.5-flash-image'',
         contents = [TextPart (generationPrompt enhance_without_source)],
         responseModalities = [js ''TEXT'', js ''IMAGE'']\<rparr>])"
    by (simp add: prod_eq_iff)
  with p w2 nk show ?thesis by simp
qed

section \<open>Properties of frame extraction\<close>

text \<open>
  Claim C5. \<open>parseTimestamp\<close> maps \<open>1:30\<close> to 90 and \<open>1:02:03\<close> to 3723; whatever the
  numeric conversion, a string that does not split on \<open>:\<close> into exactly two or three
  components is mapped to 0, as are \<open>abc\<close> and the empty string; an omitted timestamp
  is read as \<open>0:00\<close>, which is 0 seconds.
\<close>

theorem parseTimestamp_values:
  "parseTimestamp StringToNumber (js ''1:30'') = Num 90 \<and>
   parseTimestamp StringToNumber (js ''1:02:03'') = Num 3723 \<and>
   (\<forall>conv s. length (split_on (cu CHR '':'') s) \<noteq> 2 \<and> length (split_on (cu CHR '':'') s) \<noteq> 3 \<longrightarrow>
      parseTimestamp conv s = Num 0) \<and>
   parseTimestamp StringToNumber (js ''abc'') = Num 0 \<and>
   parseTimestamp StringToNumber [] = Num 0 \<and>
   or_else None (js ''0:00'') = js ''0:00'' \<and>
   seconds_of StringToNumber None = Num 0"
proof (intro conjI allI impI)
  show "parseTimestamp StringToNumber (js ''1:30'') = Num 90" by code_simp
  show "parseTimestamp StringToNumber (js ''1:02:03'') = Num 3723" by code_simp
  show "parseTimestamp StringToNumber (js ''abc'') = Num 0" by code_simp
  show "parseTimestamp StringToNumber [] = Num 0" by code_simp
  show "or_else None (js ''0:00'') = js ''0:00''" by (simp add: or_else_def)
  show "seconds_of StringToNumber None = Num 0" by code_simp
next
  fix conv :: "jsstring \<Rightarrow> jsnum" and s
  assume "length (split_on (cu CHR '':'') s) \<noteq> 2 \<and> length (split_on (cu CHR '':'') s) \<noteq> 3"
  then show "parseTimestamp conv s = Num 0"
    by (simp add: parseTimestamp_def Let_def)
qed

theorem parseTimestamp_values_witness:
  "length (split_on (cu CHR '':'') (js ''1:2:3:4'')) = 4 \<and>
   parseTimestamp StringToNumber (js ''1:2:3:4'') = Num 0"
proof -
  have l: "length (split_on (cu CHR '':'') (js ''1:2:3:4'')) = 4" by code_simp
  from parseTimestamp_values l show ?thesis by simp
qed

text \<open>
  When either tool invocation throws, the handler answers with the 200 fallback and
  leaves the files as the failed tool left them.
\<close>

lemma tool_failure_falls_back:
  assumes "req_videoId req = Some vid" "vid \<noteq> []"
    and "execAsync env (YtDlpGetUrl (js ''https://www.youtube.com/watch?v='' @ vid)) files =
           (Threw e, files1) \<or>
         (execAsync env (YtDlpGetUrl (js ''https://www.youtube.com/watch?v='' @ vid)) files =
            (Returned formatInfo, files1) \<and>
          execAsync env (FfmpegFrame (seconds_of (Number env) (req_timestamp req))
             (first_line formatInfo) (framePath env)) files1 = (Threw e, files2))"
  shows "fst (fst (POST_frame env (Returned req) files)) = fallback vid \<and>
         status (fallback vid) = 200 \<and>
         snd (POST_frame env (Returned req) files) \<in> {files1, files2}"
  using assms by (auto simp: POST_frame_def extract_frame_def Let_def fallback_def)

text \<open>
  Claim C2, at a failing input. The frame tool has written the frame file and then
  fails: the endpoint answers 200 with the thumbnail URL and the note, and the frame file
  is still there after the response, although the clean-up block of the success path and
  of the outer \<open>catch\<close> would have removed it.
\<close>

theorem fallback_leaves_frame_file:
  "POST_frame leftover_env (Returned frame_request_1_30) Map.empty =
     ((Response 200 (FrameData (js ''https://img.youtube.com/vi/dQw4w9WgXcQ/maxresdefault.jpg'')
         (Some (js ''Frame extraction requires yt-dlp and ffmpeg. Using thumbnail as fallback.''))),
       [YtDlpGetUrl (js ''https://www.youtube.com/watch?v=dQw4w9WgXcQ''),
        FfmpegFrame (Num 90) (js ''https://media.example/v.mp4'') (js ''/tmp/frame-1.jpg'')]),
      [js ''/tmp/frame-1.jpg'' \<mapsto> File [0xFF, 0xD8]]) \<and>
   existsSync (framePath leftover_env)
     (snd (POST_frame leftover_env (Returned frame_request_1_30) Map.empty)) \<and>
   \<not> existsSync (framePath leftover_env) Map.empty \<and>
   \<not> existsSync (framePath leftover_env)
     (cleanup leftover_env (snd (POST_frame leftover_env (Returned frame_request_1_30) Map.empty)))"
proof -
  have s: "seconds_of StringToNumber (Some (js ''1:30'')) = Num 90" by code_simp
  have f: "first_line (js ''https://media.example/v.mp4'' @ nl) = js ''https://media.example/v.mp4''"
    by code_simp
  have v: "js ''dQw4w9WgXcQ'' \<noteq> []" by (simp add: js_def)
  have u: "js ''https://www.youtube.com/watch?v='' @ js ''dQw4w9WgXcQ'' =
      js ''https://www.youtube.com/watch?v=dQw4w9WgXcQ''"
    "maxresUrl (js ''dQw4w9WgXcQ'') = js ''https://img.youtube.com/vi/dQw4w9WgXcQ/maxresdefault.jpg''"
    by (simp_all add: js_def maxresUrl_def)
  have d: "js ''/tmp/video-1.mp4'' \<noteq> js ''/tmp/frame-1.jpg''" by (simp add: js_def cu_def)
  have p: "POST_frame leftover_env (Returned frame_request_1_30) Map.empty =
     ((Response 200 (FrameData (js ''https://img.youtube.com/vi/dQw4w9WgXcQ/maxresdefault.jpg'')
         (Some (js ''Frame extraction requires yt-dlp and ffmpeg. Using thumbnail as fallback.''))),
       [YtDlpGetUrl (js ''https://www.youtube.com/watch?v=dQw4w9WgXcQ''),
        FfmpegFrame (Num 90) (js ''https://media.example/v.mp4'') (js ''/tmp/frame-1.jpg'')]),
      [js ''/tmp/frame-1.jpg'' \<mapsto> File [0xFF, 0xD8]])"
    using s f v u
    by (simp add: POST_frame_def extract_frame_def Let_def leftover_env_def
        frame_request_1_30_def fallback_def)
  show ?thesis
    using d by (simp add: p) (simp add: leftover_env_def existsSync_def cleanup_def unlinkSync_def)
qed

end
